theory Spec2Isabelle
  imports Complex_Main "HOL-Library.Log_Nat"
begin

section \<open>Skyblock timer logic (class SkyblockTimers of main.py)\<close>

text \<open>
  The timer functions of \<^verbatim>\<open>main.py\<close> take Unix seconds as Python floats. Two embeddings
  are given. In the first (\<open>real_to_sb\<close>, \<open>next_cult_event\<close>) a finite float is the real
  number it denotes and every float operation is the exact operation on reals; it
  serves the properties that do not turn on rounding or on the range of a float. The
  second (\<open>real_to_sb_double\<close>, \<open>free_will_remaining\<close>) computes in IEEE 754 double
  arithmetic, as CPython does. The integer results (\<^verbatim>\<open>int(...)\<close>, month, day, hour,
  minute) are \<open>int\<close>.
\<close>

subsection \<open>Configuration constants\<close>

definition SB_EPOCH_MS :: int where
  "SB_EPOCH_MS = 1560275700000"

definition SB_REAL_MIN_PER_DAY :: int where
  "SB_REAL_MIN_PER_DAY = 20"

definition SB_DAYS_PER_MONTH :: int where
  "SB_DAYS_PER_MONTH = 31"

definition SB_HOURS_PER_DAY :: int where
  "SB_HOURS_PER_DAY = 24"

definition FREE_WILL_CYCLE_HRS :: int where
  "FREE_WILL_CYCLE_HRS = 96"

definition REAL_SEC_PER_SB_DAY :: int where
  "REAL_SEC_PER_SB_DAY = SB_REAL_MIN_PER_DAY * 60"

definition REAL_SEC_PER_SB_MONTH :: int where
  "REAL_SEC_PER_SB_MONTH = REAL_SEC_PER_SB_DAY * SB_DAYS_PER_MONTH"

definition SB_SEC_PER_SB_DAY :: int where
  "SB_SEC_PER_SB_DAY = SB_HOURS_PER_DAY * 3600"

subsection \<open>Python's float operators, over the reals\<close>

text \<open>
  \<^verbatim>\<open>x // y\<close> and \<^verbatim>\<open>x % y\<close> on floats are the floored quotient and the remainder that has
  the sign of the divisor; \<^verbatim>\<open>int(x)\<close> truncates towards zero. Every divisor at the call
  sites below is a positive constant, so the \<^verbatim>\<open>ZeroDivisionError\<close> branch is never taken.
\<close>

definition py_floordiv :: "real \<Rightarrow> real \<Rightarrow> real" where
  "py_floordiv x y = real_of_int \<lfloor>x / y\<rfloor>"

definition py_fmod :: "real \<Rightarrow> real \<Rightarrow> real" where
  "py_fmod x y = x - real_of_int \<lfloor>x / y\<rfloor> * y"

definition py_int :: "real \<Rightarrow> int" where
  "py_int x = (if 0 \<le> x then \<lfloor>x\<rfloor> else \<lceil>x\<rceil>)"

subsection \<open>real_to_sb\<close>

text \<open>
  The dictionary \<^verbatim>\<open>real_to_sb\<close> returns, as a record; its key \<^verbatim>\<open>"min"\<close> is the field
  \<open>minute\<close>.
\<close>

record sb_moment =
  month :: int
  day :: int
  hour :: int
  minute :: int
  sb_seconds_elapsed :: real
  sb_time_of_day :: real
  real_elapsed :: real

definition clamped_elapsed :: "real \<Rightarrow> real" where
  \<comment> \<open>\<^verbatim>\<open>elapsed_real = real_epoch_s - SB_EPOCH_MS / 1000; if elapsed_real < 0: elapsed_real = 0\<close>\<close>
  "clamped_elapsed real_epoch_s =
     (let elapsed_real = real_epoch_s - real_of_int SB_EPOCH_MS / 1000
      in if elapsed_real < 0 then 0 else elapsed_real)"

definition real_to_sb :: "real \<Rightarrow> sb_moment" where
  "real_to_sb real_epoch_s =
     (let elapsed_real = clamped_elapsed real_epoch_s;
          sb_secs = elapsed_real * real_of_int SB_SEC_PER_SB_DAY / real_of_int REAL_SEC_PER_SB_DAY;
          sb_total_days = py_int (py_floordiv sb_secs (real_of_int SB_SEC_PER_SB_DAY));
          sb_tod = py_fmod sb_secs (real_of_int SB_SEC_PER_SB_DAY);
          sb_month = (sb_total_days div SB_DAYS_PER_MONTH) + 1;
          sb_day = (sb_total_days mod SB_DAYS_PER_MONTH) + 1;
          sb_hour = py_int (py_floordiv sb_tod 3600);
          sb_min = py_int (py_floordiv (py_fmod sb_tod 3600) 60)
      in \<lparr> month = sb_month, day = sb_day, hour = sb_hour, minute = sb_min,
           sb_seconds_elapsed = sb_secs, sb_time_of_day = sb_tod,
           real_elapsed = elapsed_real \<rparr>)"

subsection \<open>next_cult_event\<close>

definition event_days :: "int list" where
  "event_days = [6, 13, 20, 27]"

definition real_in_month :: "real \<Rightarrow> real" where
  \<comment> \<open>\<^verbatim>\<open>real_in_month = elapsed_real % cls.REAL_SEC_PER_SB_MONTH\<close>\<close>
  "real_in_month real_now_s =
     py_fmod (real_elapsed (real_to_sb real_now_s)) (real_of_int REAL_SEC_PER_SB_MONTH)"

fun cult_loop :: "real \<Rightarrow> real \<Rightarrow> int list \<Rightarrow> real option \<Rightarrow> real option" where
  "cult_loop rim real_per_day [] best = best"
| "cult_loop rim real_per_day (d # ds) best =
     (let day_start = real_of_int d * real_per_day
      in cult_loop rim real_per_day ds
           (if day_start > rim
            then (let gap = day_start - rim
                  in case best of
                       None \<Rightarrow> Some gap
                     | Some b \<Rightarrow> if gap < b then Some gap else best)
            else best))"

definition next_cult_event :: "real \<Rightarrow> real" where
  "next_cult_event real_now_s =
     (let rim = real_in_month real_now_s;
          real_per_day = real_of_int REAL_SEC_PER_SB_DAY
      in case cult_loop rim real_per_day event_days None of
           Some best \<Rightarrow> best
         | None \<Rightarrow> real_of_int REAL_SEC_PER_SB_MONTH - rim
                     + real_of_int (event_days ! 0) * real_per_day)"

subsection \<open>Python floats as IEEE 754 binary64 values\<close>

text \<open>
  For the questions that turn on rounding and on the range of a float, a finite double
  is the real number it denotes, and an arithmetic operation returns the real result
  rounded to the nearest double, ties to even (\<open>rd\<close>, with gradual underflow), or
  overflows. A float value is a \<open>real option\<close>: \<open>None\<close> stands for the values that are not
  finite (the infinities and NaN), which the operations used here only pass on. The
  two zeros are not told apart; no result below depends on the sign of a zero.
\<close>

definition exponent_of :: "real \<Rightarrow> int" where
  \<comment> \<open>the binary exponent of \<open>x \<noteq> 0\<close>: the floor of the logarithm to base 2 of \<open>\<bar>x\<bar>\<close>\<close>
  "exponent_of x =
     (if 1 \<le> \<bar>x\<bar> then bitlen \<lfloor>\<bar>x\<bar>\<rfloor> - 1 else - bitlen (\<lceil>1 / \<bar>x\<bar>\<rceil> - 1))"

definition round_half_even :: "real \<Rightarrow> int" where
  "round_half_even q =
     (let f = \<lfloor>q\<rfloor>; d = q - real_of_int f
      in if d < 1 / 2 then f else if 1 / 2 < d then f + 1 else if even f then f else f + 1)"

definition rd :: "real \<Rightarrow> real" where
  \<comment> \<open>round to 53 significant bits, the unit in the last place never below
      \<open>2 powi (- 1074)\<close>\<close>
  "rd x =
     (if x = 0 then 0
      else (let u = max (exponent_of x) (- 1022) - 52
            in real_of_int (round_half_even (x / 2 powi u)) * 2 powi u))"

definition fl :: "real \<Rightarrow> real option" where
  \<comment> \<open>the double result of an operation whose exact result is \<open>x\<close>\<close>
  "fl x = (let r = rd x in if \<bar>r\<bar> < 2 ^ 1024 then Some r else None)"

definition is_double :: "real \<Rightarrow> bool" where
  "is_double x = (fl x = Some x)"

definition float_mul :: "real option \<Rightarrow> real \<Rightarrow> real option" where
  \<comment> \<open>\<^verbatim>\<open>v * w\<close> for a finite \<open>w \<noteq> 0\<close>\<close>
  "float_mul v w = (case v of None \<Rightarrow> None | Some x \<Rightarrow> fl (x * w))"

definition float_div :: "real option \<Rightarrow> real \<Rightarrow> real option" where
  \<comment> \<open>\<^verbatim>\<open>v / w\<close> for a finite \<open>w \<noteq> 0\<close>\<close>
  "float_div v w = (case v of None \<Rightarrow> None | Some x \<Rightarrow> fl (x / w))"

definition c_fmod :: "real \<Rightarrow> real \<Rightarrow> real" where
  \<comment> \<open>C's \<^verbatim>\<open>fmod\<close> on finite values: exact, with the sign of \<open>x\<close>\<close>
  "c_fmod x y = x - y * real_of_int (py_int (x / y))"

definition float_rem :: "real option \<Rightarrow> real \<Rightarrow> real option" where
  \<comment> \<open>\<^verbatim>\<open>v % wx\<close> on floats (CPython's \<^verbatim>\<open>float_rem\<close>), for a finite \<open>wx \<noteq> 0\<close>\<close>
  "float_rem v wx =
     (case v of
        None \<Rightarrow> None
      | Some vx \<Rightarrow>
          (let m = c_fmod vx wx
           in if m \<noteq> 0 then (if (wx < 0) \<noteq> (m < 0) then fl (m + wx) else Some m)
              else Some 0))"

definition float_floor_div :: "real option \<Rightarrow> real \<Rightarrow> real option" where
  \<comment> \<open>\<^verbatim>\<open>v // wx\<close> on floats (CPython's \<^verbatim>\<open>_float_div_mod\<close>), for a finite \<open>wx \<noteq> 0\<close>; the
      difference \<open>dv - fd\<close> lies between 0 and 1 and cannot overflow\<close>
  "float_floor_div v wx =
     (case v of
        None \<Rightarrow> None
      | Some vx \<Rightarrow>
          (let m = c_fmod vx wx
           in case float_div (fl (vx - m)) wx of
                None \<Rightarrow> None
              | Some div0 \<Rightarrow>
                  (case (if m \<noteq> 0 \<and> (wx < 0) \<noteq> (m < 0) then fl (div0 - 1) else Some div0) of
                     None \<Rightarrow> None
                   | Some dv \<Rightarrow>
                       if dv \<noteq> 0
                       then (let fd = real_of_int \<lfloor>dv\<rfloor>
                             in if 1 / 2 < rd (dv - fd) then fl (fd + 1) else Some fd)
                       else Some 0)))"

subsection \<open>real_to_sb in double arithmetic\<close>

definition real_to_sb_double :: "real \<Rightarrow> sb_moment option" where
  \<comment> \<open>\<^verbatim>\<open>real_to_sb\<close> in double arithmetic; \<open>None\<close> when an \<^verbatim>\<open>int(...)\<close> raises \<^verbatim>\<open>ValueError\<close>
      on a value that is not finite. \<^verbatim>\<open>SB_EPOCH_MS / 1000\<close> is the double 1560275700.0, and the
      integer constants convert to doubles exactly\<close>
  "real_to_sb_double real_epoch_s =
     (let epoch = real_of_int SB_EPOCH_MS / 1000;
          elapsed_real =
            (case fl (real_epoch_s - epoch) of
               Some e \<Rightarrow> Some (if e < 0 then 0 else e)
             | None \<Rightarrow> if real_epoch_s < epoch then Some 0 else None);
          sb_secs = float_div (float_mul elapsed_real (real_of_int SB_SEC_PER_SB_DAY))
                      (real_of_int REAL_SEC_PER_SB_DAY);
          sb_tod = float_rem sb_secs (real_of_int SB_SEC_PER_SB_DAY)
      in Option.bind (float_floor_div sb_secs (real_of_int SB_SEC_PER_SB_DAY)) (\<lambda>days.
         Option.bind (float_floor_div sb_tod 3600) (\<lambda>hours.
         Option.bind (float_floor_div (float_rem sb_tod 3600) 60) (\<lambda>mins.
         Option.bind sb_secs (\<lambda>s.
         Option.bind sb_tod (\<lambda>tod.
         Option.bind elapsed_real (\<lambda>el.
           Some \<lparr> month = py_int days div SB_DAYS_PER_MONTH + 1,
                  day = py_int days mod SB_DAYS_PER_MONTH + 1,
                  hour = py_int hours, minute = py_int mins,
                  sb_seconds_elapsed = s, sb_time_of_day = tod,
                  real_elapsed = el \<rparr>)))))))"

subsection \<open>free_will_remaining\<close>

definition cycle_s :: int where
  "cycle_s = FREE_WILL_CYCLE_HRS * 3600"

definition free_will_remaining :: "real \<Rightarrow> real \<Rightarrow> real option" where
  \<comment> \<open>\<open>None\<close> is the result NaN, when the difference overflows\<close>
  "free_will_remaining real_now_s anchor_s =
     (let elapsed = float_rem (fl (real_now_s - anchor_s)) (real_of_int cycle_s)
      in case elapsed of
           None \<Rightarrow> None
         | Some e \<Rightarrow> fl (real_of_int cycle_s - e))"

section \<open>Background workers\<close>

text \<open>
  A value of \<open>exn\<close> is a Python exception of class \<^verbatim>\<open>Exception\<close>, which is what every
  handler of the two workers catches. An operation on an external backend with state
  \<open>'b\<close> returns its result or the exception it raised, together with the backend's new
  state.
\<close>

datatype exn = Exn string

type_synonym ('a, 'b) io = "'b \<Rightarrow> (exn + 'a) \<times> 'b"

definition return_ok :: "'a \<Rightarrow> ('a, 'b) io" where
  "return_ok x b = (Inr x, b)"

definition raise_exn :: "exn \<Rightarrow> ('a, 'b) io" where
  "raise_exn e b = (Inl e, b)"

definition bind_exn :: "('a, 'b) io \<Rightarrow> ('a \<Rightarrow> ('c, 'b) io) \<Rightarrow> ('c, 'b) io" where
  "bind_exn m f b = (case m b of (Inl e, b1) \<Rightarrow> (Inl e, b1) | (Inr x, b1) \<Rightarrow> f x b1)"

subsection \<open>Configuration and fallback data\<close>

definition MOPIDY_HOST :: string where
  "MOPIDY_HOST = ''localhost''"

definition MOPIDY_MPD_PORT :: nat where
  "MOPIDY_MPD_PORT = 6600"

record track =
  title :: string
  artist :: string
  album :: string
  duration :: real
  elapsed :: real
  track_state :: string
  shuffle :: bool
  repeat :: bool

text \<open>Strings are UTF-8 byte sequences; the dash and the emoji are written as their bytes.\<close>

definition MOCK_TRACK :: track where
  "MOCK_TRACK = \<lparr> title = ''Mock Song '' @ [CHR 0xE2, CHR 0x80, CHR 0x93] @ '' Connect Mopidy'',
     artist = ''Unknown Artist'', album = ''Unknown Album'', duration = 210, elapsed = 0,
     track_state = ''stop'', shuffle = False, repeat = False \<rparr>"

definition MOCK_PLAYLISTS :: "string list" where
  "MOCK_PLAYLISTS =
    [ [CHR 0xF0, CHR 0x9F, CHR 0x8E, CHR 0xB5] @ '' Chill Vibes'',
      [CHR 0xF0, CHR 0x9F, CHR 0x94, CHR 0xA5] @ '' Workout Beats'',
      [CHR 0xF0, CHR 0x9F, CHR 0x8C, CHR 0x99] @ '' Late Night Lo-Fi'',
      [CHR 0xF0, CHR 0x9F, CHR 0x8E, CHR 0xB8] @ '' Rock Classics'',
      [CHR 0xF0, CHR 0x9F, CHR 0x8E, CHR 0xB9] @ '' Piano Sessions'',
      [CHR 0xF0, CHR 0x9F, CHR 0x8C, CHR 0xBF] @ '' Nature Sounds'',
      [CHR 0xF0, CHR 0x9F, CHR 0x9A, CHR 0x80] @ '' Synthwave Drive'' ]"

subsection \<open>MopidyWorker\<close>

text \<open>
  The MPD client library is external. \<open>mpd_client\<close> collects the client methods the worker
  calls, as operations on the state \<open>'b\<close> of connection and server; replies are
  dictionaries from strings to strings, as python-mpd2 returns them.
\<close>

type_synonym dict = "string \<rightharpoonup> string"

datatype mpd_command = Pause nat | Play | Next | Previous | Random nat | Repeat nat
  | Clear | Load string

record 'b mpd_client =
  c_connect :: "string \<Rightarrow> nat \<Rightarrow> (unit, 'b) io"
  c_status :: "(dict, 'b) io"
  c_currentsong :: "(dict, 'b) io"
  c_listplaylists :: "(dict list, 'b) io"
  c_command :: "mpd_command \<Rightarrow> (unit, 'b) io"

text \<open>
  The worker object: \<^verbatim>\<open>_running\<close>, \<^verbatim>\<open>_client\<close> (\<open>None\<close> or a client object) and
  \<^verbatim>\<open>_connected\<close>, here \<open>connected_flag\<close>.
\<close>

record mopidy_worker =
  running :: bool
  client :: "unit option"
  connected_flag :: bool

datatype event = TrackUpdated track | PlaylistsUpdated "string list"

text \<open>
  The public control methods, each of which calls \<^verbatim>\<open>_safe_cmd\<close> with its command name:
  \<^verbatim>\<open>play_pause\<close>, \<^verbatim>\<open>next_track\<close>, \<^verbatim>\<open>prev_track\<close>, \<^verbatim>\<open>shuffle(on)\<close>, \<^verbatim>\<open>loop(on)\<close>,
  \<^verbatim>\<open>play_playlist(name)\<close>.
\<close>

datatype control = PlayPause | NextTrack | PrevTrack | Shuffle bool | Loop bool
  | PlayPlaylist string

fun safe_cmd_body :: "'b mpd_client \<Rightarrow> control \<Rightarrow> (unit, 'b) io" where
  "safe_cmd_body cl PlayPause =
     bind_exn (c_status cl) (\<lambda>status.
       if status ''state'' = Some ''play'' then c_command cl (Pause 1) else c_command cl Play)"
| "safe_cmd_body cl NextTrack = c_command cl Next"
| "safe_cmd_body cl PrevTrack = c_command cl Previous"
| "safe_cmd_body cl (Shuffle on) = c_command cl (Random (if on then 1 else 0))"
| "safe_cmd_body cl (Loop on) = c_command cl (Repeat (if on then 1 else 0))"
| "safe_cmd_body cl (PlayPlaylist name) =
     bind_exn (c_command cl Clear) (\<lambda>_.
     bind_exn (c_command cl (Load name)) (\<lambda>_.
     c_command cl Play))"

definition safe_cmd ::
  "'b mpd_client \<Rightarrow> control \<Rightarrow> mopidy_worker \<times> 'b \<Rightarrow> mopidy_worker \<times> 'b" where
  "safe_cmd cl cmd = (\<lambda>(w, b).
     if \<not> connected_flag w then (w, b)
     else (case safe_cmd_body cl cmd b of
             (Inr _, b1) \<Rightarrow> (w, b1)
           | (Inl e, b1) \<Rightarrow> (w\<lparr>connected_flag := False\<rparr>, b1)))"

definition fallback_events :: "event list" where
  \<comment> \<open>\<^verbatim>\<open>track_updated.emit(MOCK_TRACK.copy()); playlists_updated.emit(MOCK_PLAYLISTS.copy())\<close>\<close>
  "fallback_events = [TrackUpdated MOCK_TRACK, PlaylistsUpdated MOCK_PLAYLISTS]"

definition try_connect ::
  "'b mpd_client \<Rightarrow> bool \<Rightarrow> mopidy_worker \<times> 'b \<Rightarrow> mopidy_worker \<times> 'b \<times> event list" where
  \<comment> \<open>\<open>mpd_available\<close> is the module flag \<^verbatim>\<open>MPD_AVAILABLE\<close>; creating the client object and
      setting its timeout touch no backend\<close>
  "try_connect cl mpd_available = (\<lambda>(w, b).
     if \<not> mpd_available then (w, b, fallback_events)
     else (let w1 = w\<lparr>client := Some ()\<rparr>
           in case c_connect cl MOPIDY_HOST MOPIDY_MPD_PORT b of
                (Inr _, b1) \<Rightarrow> (w1\<lparr>connected_flag := True\<rparr>, b1, [])
              | (Inl e, b1) \<Rightarrow> (w1, b1, fallback_events)))"

fun playlist_names :: "dict list \<Rightarrow> exn + string list" where
  \<comment> \<open>\<^verbatim>\<open>[p["playlist"] for p in ...]\<close>\<close>
  "playlist_names [] = Inr []"
| "playlist_names (p # ps) =
     (case p ''playlist'' of
        None \<Rightarrow> Inl (Exn ''KeyError'')
      | Some n \<Rightarrow> (case playlist_names ps of Inl e \<Rightarrow> Inl e | Inr ns \<Rightarrow> Inr (n # ns)))"

definition float_field :: "(string \<rightharpoonup> real) \<Rightarrow> dict \<Rightarrow> string \<Rightarrow> exn + real" where
  \<comment> \<open>\<^verbatim>\<open>float(status.get(k, 0) or 0)\<close>; \<open>py_float\<close> is Python's \<^verbatim>\<open>float\<close> on strings, \<open>None\<close>
      where it raises \<^verbatim>\<open>ValueError\<close>\<close>
  "float_field py_float d k =
     (case d k of
        None \<Rightarrow> Inr 0
      | Some s \<Rightarrow> if s = [] then Inr 0
                  else (case py_float s of None \<Rightarrow> Inl (Exn ''ValueError'') | Some x \<Rightarrow> Inr x))"

definition get_default :: "('k \<rightharpoonup> 'v) \<Rightarrow> 'k \<Rightarrow> 'v \<Rightarrow> 'v" where
  \<comment> \<open>\<^verbatim>\<open>d.get(k, default)\<close> on a dictionary\<close>
  "get_default d k dflt = (case d k of None \<Rightarrow> dflt | Some v \<Rightarrow> v)"

definition make_track :: "(string \<rightharpoonup> real) \<Rightarrow> dict \<Rightarrow> dict \<Rightarrow> exn + track" where
  "make_track py_float status currentsong =
     (case float_field py_float status ''duration'' of
        Inl e \<Rightarrow> Inl e
      | Inr dur \<Rightarrow>
          (case float_field py_float status ''elapsed'' of
             Inl e \<Rightarrow> Inl e
           | Inr el \<Rightarrow>
               Inr \<lparr> title = get_default currentsong ''title'' ''Unknown'',
                     artist = get_default currentsong ''artist'' ''Unknown'',
                     album = get_default currentsong ''album'' [],
                     duration = dur, elapsed = el,
                     track_state = get_default status ''state'' ''stop'',
                     shuffle = (get_default status ''random'' ''0'' = ''1''),
                     repeat = (get_default status ''repeat'' ''0'' = ''1'') \<rparr>))"

definition poll_body :: "'b mpd_client \<Rightarrow> (string \<rightharpoonup> real) \<Rightarrow> (event list, 'b) io" where
  \<comment> \<open>the \<^verbatim>\<open>try\<close> block of \<^verbatim>\<open>_poll\<close>: the events it emits, or the exception that leaves it\<close>
  "poll_body cl py_float =
     bind_exn (c_status cl) (\<lambda>status.
     bind_exn (c_currentsong cl) (\<lambda>currentsong.
     bind_exn (c_listplaylists cl) (\<lambda>pls.
       case playlist_names pls of
         Inl e \<Rightarrow> raise_exn e
       | Inr playlists \<Rightarrow>
           (case make_track py_float status currentsong of
              Inl e \<Rightarrow> raise_exn e
            | Inr tr \<Rightarrow> return_ok [TrackUpdated tr, PlaylistsUpdated playlists]))))"

definition poll ::
  "'b mpd_client \<Rightarrow> (string \<rightharpoonup> real) \<Rightarrow> mopidy_worker \<times> 'b
     \<Rightarrow> mopidy_worker \<times> 'b \<times> event list" where
  "poll cl py_float = (\<lambda>(w, b).
     case poll_body cl py_float b of
       (Inr evs, b1) \<Rightarrow> (w, b1, evs)
     | (Inl e, b1) \<Rightarrow> (w\<lparr>connected_flag := False\<rparr>, b1, []))"

definition mopidy_tick ::
  "'b mpd_client \<Rightarrow> (string \<rightharpoonup> real) \<Rightarrow> bool \<Rightarrow> mopidy_worker \<times> 'b
     \<Rightarrow> mopidy_worker \<times> 'b \<times> event list" where
  \<comment> \<open>one iteration of the loop of \<^verbatim>\<open>run\<close>, up to the sleep\<close>
  "mopidy_tick cl py_float mpd_available = (\<lambda>(w, b).
     case (if \<not> connected_flag w then try_connect cl mpd_available (w, b) else (w, b, [])) of
       (w1, b1, evs1) \<Rightarrow>
         (case (if connected_flag w1 then poll cl py_float (w1, b1) else (w1, b1, [])) of
            (w2, b2, evs2) \<Rightarrow> (w2, b2, evs1 @ evs2)))"

fun mopidy_run ::
  "'b mpd_client \<Rightarrow> (string \<rightharpoonup> real) \<Rightarrow> bool \<Rightarrow> nat \<Rightarrow> mopidy_worker \<times> 'b
     \<Rightarrow> (mopidy_worker \<times> event list) list" where
  \<comment> \<open>the first \<open>n\<close> iterations of \<^verbatim>\<open>while self._running\<close>: the worker after each
      iteration and the events that iteration emitted\<close>
  "mopidy_run cl py_float mpd_available 0 (w, b) = []"
| "mopidy_run cl py_float mpd_available (Suc n) (w, b) =
     (if \<not> running w then []
      else (case mopidy_tick cl py_float mpd_available (w, b) of
              (w1, b1, evs) \<Rightarrow> (w1, evs) # mopidy_run cl py_float mpd_available n (w1, b1)))"

definition connect_fails :: "'b mpd_client \<Rightarrow> bool \<Rightarrow> 'b \<Rightarrow> bool" where
  \<comment> \<open>a connection attempt made in backend state \<open>b\<close> fails: the library is missing or
      \<^verbatim>\<open>connect\<close> raises\<close>
  "connect_fails cl mpd_available b =
     (\<not> mpd_available \<or> isl (fst (c_connect cl MOPIDY_HOST MOPIDY_MPD_PORT b)))"

fun connect_fails_for ::
  "'b mpd_client \<Rightarrow> (string \<rightharpoonup> real) \<Rightarrow> bool \<Rightarrow> nat \<Rightarrow> mopidy_worker \<times> 'b \<Rightarrow> bool" where
  \<comment> \<open>the connection attempt fails in each of the next \<open>n\<close> iterations\<close>
  "connect_fails_for cl py_float mpd_available 0 (w, b) = True"
| "connect_fails_for cl py_float mpd_available (Suc n) (w, b) =
     (connect_fails cl mpd_available b \<and>
      (case mopidy_tick cl py_float mpd_available (w, b) of
         (w1, b1, evs) \<Rightarrow> connect_fails_for cl py_float mpd_available n (w1, b1)))"

subsection \<open>MoonrakerWorker\<close>

datatype json = JNull | JBool bool | JNum real | JStr string | JArr "json list"
  | JObj "(string \<times> json) list"

record printer =
  printer_state :: json
  progress :: json
  hotend_temp :: json
  hotend_target :: json
  bed_temp :: json
  bed_target :: json

definition MOCK_PRINTER :: printer where
  "MOCK_PRINTER = \<lparr> printer_state = JStr ''standby'', progress = JNum 0.0,
     hotend_temp = JNum 0.0, hotend_target = JNum 0.0, bed_temp = JNum 0.0,
     bed_target = JNum 0.0 \<rparr>"

text \<open>
  What \<^verbatim>\<open>requests.get(url, timeout=3)\<close> can do: raise (no route, refused, timeout), or
  return a response with a status code and a body that parses as JSON or does not.
\<close>

datatype http_outcome = NetworkError | Response nat "json option"

fun subscript :: "json \<Rightarrow> string \<Rightarrow> exn + json" where
  \<comment> \<open>\<^verbatim>\<open>v[k]\<close> with a string key\<close>
  "subscript (JObj kvs) k =
     (case map_of kvs k of None \<Rightarrow> Inl (Exn ''KeyError'') | Some v \<Rightarrow> Inr v)"
| "subscript v k = Inl (Exn ''TypeError'')"

fun json_get :: "json \<Rightarrow> string \<Rightarrow> json \<Rightarrow> exn + json" where
  \<comment> \<open>\<^verbatim>\<open>v.get(k, default)\<close>: only a dictionary has the method\<close>
  "json_get (JObj kvs) k dflt = Inr (get_default (map_of kvs) k dflt)"
| "json_get v k dflt = Inl (Exn ''AttributeError'')"

definition bind_sum :: "exn + 'a \<Rightarrow> ('a \<Rightarrow> exn + 'c) \<Rightarrow> exn + 'c" where
  "bind_sum m f = (case m of Inl e \<Rightarrow> Inl e | Inr x \<Rightarrow> f x)"

definition normalize_status :: "json \<Rightarrow> exn + printer" where
  \<comment> \<open>from \<^verbatim>\<open>stats = data.get("print_stats", {})\<close> to the \<^verbatim>\<open>result\<close> dictionary\<close>
  "normalize_status data =
     bind_sum (json_get data ''print_stats'' (JObj [])) (\<lambda>stats.
     bind_sum (json_get data ''extruder'' (JObj [])) (\<lambda>ext.
     bind_sum (json_get data ''heater_bed'' (JObj [])) (\<lambda>bed.
     bind_sum (json_get stats ''state'' (JStr ''standby'')) (\<lambda>st.
     bind_sum (json_get stats ''progress'' (JNum 0.0)) (\<lambda>pr.
     bind_sum (json_get ext ''temperature'' (JNum 0.0)) (\<lambda>ht.
     bind_sum (json_get ext ''target'' (JNum 0.0)) (\<lambda>hg.
     bind_sum (json_get bed ''temperature'' (JNum 0.0)) (\<lambda>bt.
     bind_sum (json_get bed ''target'' (JNum 0.0)) (\<lambda>bg.
       Inr \<lparr> printer_state = st, progress = pr, hotend_temp = ht, hotend_target = hg,
             bed_temp = bt, bed_target = bg \<rparr>)))))))))"

definition moonraker_body :: "http_outcome \<Rightarrow> exn + printer" where
  \<comment> \<open>the \<^verbatim>\<open>try\<close> block of \<^verbatim>\<open>_poll\<close>; \<^verbatim>\<open>raise_for_status\<close> raises on a 4xx or 5xx code\<close>
  "moonraker_body http =
     (case http of
        NetworkError \<Rightarrow> Inl (Exn ''ConnectionError'')
      | Response code body \<Rightarrow>
          if 400 \<le> code \<and> code < 600 then Inl (Exn ''HTTPError'')
          else (case body of
                  None \<Rightarrow> Inl (Exn ''JSONDecodeError'')
                | Some j \<Rightarrow>
                    bind_sum (subscript j ''result'') (\<lambda>res.
                    bind_sum (subscript res ''status'') normalize_status)))"

definition moonraker_poll :: "bool \<Rightarrow> http_outcome \<Rightarrow> printer list" where
  \<comment> \<open>the records \<^verbatim>\<open>_poll\<close> emits; \<open>requests_available\<close> is \<^verbatim>\<open>REQUESTS_AVAILABLE\<close>\<close>
  "moonraker_poll requests_available http =
     (if \<not> requests_available then [MOCK_PRINTER]
      else (case moonraker_body http of
              Inr result \<Rightarrow> [result]
            | Inl e \<Rightarrow> [MOCK_PRINTER]))"

fun moonraker_run :: "bool \<Rightarrow> bool \<Rightarrow> http_outcome list \<Rightarrow> printer list list" where
  \<comment> \<open>\<^verbatim>\<open>while self._running: self._poll()\<close>, one HTTP outcome per iteration; the result
      is what each iteration emitted\<close>
  "moonraker_run requests_available is_running [] = []"
| "moonraker_run requests_available is_running (http # rest) =
     (if \<not> is_running then []
      else moonraker_poll requests_available http
             # moonraker_run requests_available is_running rest)"

definition request_fails :: "bool \<Rightarrow> http_outcome \<Rightarrow> bool" where
  \<comment> \<open>the printer cannot be reached: the library is missing or the request raises\<close>
  "request_fails requests_available http = (\<not> requests_available \<or> http = NetworkError)"

section \<open>Properties of the timer logic\<close>

lemmas sb_consts = SB_EPOCH_MS_def SB_REAL_MIN_PER_DAY_def SB_DAYS_PER_MONTH_def
  SB_HOURS_PER_DAY_def FREE_WILL_CYCLE_HRS_def REAL_SEC_PER_SB_DAY_def
  REAL_SEC_PER_SB_MONTH_def SB_SEC_PER_SB_DAY_def

lemma py_fmod_nonneg: "0 < y \<Longrightarrow> 0 \<le> py_fmod x y"
proof -
  assume y: "0 < y"
  have "real_of_int \<lfloor>x / y\<rfloor> * y \<le> x" using y by (rule floor_divide_lower)
  then show ?thesis by (simp add: py_fmod_def)
qed

lemma py_fmod_less: "0 < y \<Longrightarrow> py_fmod x y < y"
proof -
  assume y: "0 < y"
  have "x < (real_of_int \<lfloor>x / y\<rfloor> + 1) * y" using y by (rule floor_divide_upper)
  then show ?thesis by (simp add: py_fmod_def algebra_simps)
qed

lemma py_fmod_shift:
  assumes "0 < y" "0 \<le> r" "r < y"
  shows "py_fmod (real_of_int k * y + r) y = r"
proof -
  have "(real_of_int k * y + r) / y = real_of_int k + r / y"
    using assms by (simp add: field_simps)
  moreover have "\<lfloor>real_of_int k + r / y\<rfloor> = k"
    using assms by (simp add: floor_unique)
  ultimately show ?thesis by (simp add: py_fmod_def)
qed

lemma clamped_elapsed_nonneg: "0 \<le> clamped_elapsed t"
  by (simp add: clamped_elapsed_def Let_def)

lemma clamped_elapsed_before: "t \<le> 1560275700 \<Longrightarrow> clamped_elapsed t = 0"
  by (simp add: clamped_elapsed_def Let_def SB_EPOCH_MS_def)

lemma clamped_elapsed_after: "0 \<le> e \<Longrightarrow> clamped_elapsed (1560275700 + e) = e"
  by (simp add: clamped_elapsed_def Let_def SB_EPOCH_MS_def)

lemma sb_time_of_day_eq:
  "sb_time_of_day (real_to_sb t) = py_fmod (72 * clamped_elapsed t) 86400"
  by (simp add: real_to_sb_def Let_def sb_consts)

lemma total_days_nonneg: "(0::int) \<le> \<lfloor>clamped_elapsed t / 1200\<rfloor>"
  using clamped_elapsed_nonneg[of t] by simp

lemma day_eq: "day (real_to_sb t) = \<lfloor>clamped_elapsed t / 1200\<rfloor> mod 31 + 1"
  using total_days_nonneg[of t]
  by (simp add: real_to_sb_def Let_def sb_consts py_int_def py_floordiv_def)

lemma month_eq: "month (real_to_sb t) = \<lfloor>clamped_elapsed t / 1200\<rfloor> div 31 + 1"
  using total_days_nonneg[of t]
  by (simp add: real_to_sb_def Let_def sb_consts py_int_def py_floordiv_def)

lemma cult_loop_val:
  "cult_loop rim 1200 [6, 13, 20, 27] None =
    (if rim < 7200 then Some (7200 - rim)
     else if rim < 15600 then Some (15600 - rim)
     else if rim < 24000 then Some (24000 - rim)
     else if rim < 32400 then Some (32400 - rim)
     else None)"
  by (simp add: Let_def)

lemma real_in_month_bounds: "0 \<le> real_in_month t \<and> real_in_month t < 37200"
  using py_fmod_nonneg[of 37200] py_fmod_less[of 37200]
  by (simp add: real_in_month_def sb_consts)

lemma next_cult_event_val:
  "next_cult_event t =
    (let rim = real_in_month t in
     if rim < 7200 then 7200 - rim
     else if rim < 15600 then 15600 - rim
     else if rim < 24000 then 24000 - rim
     else if rim < 32400 then 32400 - rim
     else 37200 - rim + 7200)"
  by (simp add: next_cult_event_def event_days_def sb_consts cult_loop_val Let_def)

lemma real_in_month_after:
  "0 \<le> e \<Longrightarrow> e < 37200 \<Longrightarrow> real_in_month (1560275700 + e) = e"
proof -
  assume e: "0 \<le> e" "e < 37200"
  have "py_fmod (real_of_int 0 * 37200 + e) 37200 = e"
    using e by (intro py_fmod_shift) simp_all
  then show ?thesis
    using e by (simp add: real_in_month_def real_to_sb_def Let_def clamped_elapsed_after sb_consts)
qed

text \<open>
  C1. At every instant \<open>next_cult_event\<close> returns a value that is strictly positive and
  strictly less than 37200, the real seconds of one month of 31 days of 1200 s. When no
  trigger day of \<open>event_days\<close> starts strictly after the position in the month, the value
  is the rest of the month, \<open>37200 - real_in_month\<close>, plus the offset \<open>6 * 1200\<close> of the
  first trigger day.
\<close>

theorem next_cult_event_bounds:
  "0 < next_cult_event t \<and> next_cult_event t < 37200 \<and>
   ((\<forall>d \<in> set event_days. \<not> real_in_month t < real_of_int d * 1200) \<longrightarrow>
      next_cult_event t = (37200 - real_in_month t) + 6 * 1200)"
  using real_in_month_bounds[of t]
  by (simp add: next_cult_event_val Let_def event_days_def)

theorem next_cult_event_bounds_witness:
  "real_in_month (1560275700 + 33000) = 33000
   \<and> next_cult_event (1560275700 + 33000) = 11400
   \<and> 0 < next_cult_event (1560275700 + 33000)
   \<and> next_cult_event (1560275700 + 33000) < 37200"
proof -
  have rim: "real_in_month (1560275700 + 33000) = 33000"
    by (rule real_in_month_after) simp_all
  have late: "\<forall>d \<in> set event_days. \<not> real_in_month (1560275700 + 33000) < real_of_int d * 1200"
    by (simp only: rim) (simp add: event_days_def)
  from next_cult_event_bounds[of "1560275700 + 33000"] late
  have "next_cult_event (1560275700 + 33000)
          = (37200 - real_in_month (1560275700 + 33000)) + 6 * 1200"
    and "0 < next_cult_event (1560275700 + 33000)"
    and "next_cult_event (1560275700 + 33000) < 37200"
    by blast+
  then show ?thesis by (simp only: rim) simp
qed

text \<open>
  C2. At every instant less than or equal to the epoch, 1560275700 s, \<open>real_to_sb\<close>
  returns the zero moment: month 1, day 1, hour 0, minute 0, time of day 0, and the
  elapsed counters 0. The instant of the epoch itself is the witness.
\<close>

theorem real_to_sb_before_epoch:
  "t \<le> 1560275700 \<Longrightarrow>
   real_to_sb t = \<lparr> month = 1, day = 1, hour = 0, minute = 0,
                    sb_seconds_elapsed = 0, sb_time_of_day = 0, real_elapsed = 0 \<rparr>"
  by (simp add: real_to_sb_def clamped_elapsed_before Let_def py_int_def py_floordiv_def
      py_fmod_def sb_consts)

theorem real_to_sb_before_epoch_witness:
  "real_to_sb 1560275700 = \<lparr> month = 1, day = 1, hour = 0, minute = 0,
                    sb_seconds_elapsed = 0, sb_time_of_day = 0, real_elapsed = 0 \<rparr>"
  by (rule real_to_sb_before_epoch) simp

subsection \<open>Rounding to a double\<close>

lemma exponent_lower: "x \<noteq> 0 \<Longrightarrow> 2 powi exponent_of x \<le> \<bar>x\<bar>"
proof (cases "1 \<le> \<bar>x\<bar>")
  case True
  define n where "n = \<lfloor>\<bar>x\<bar>\<rfloor>"
  have n1: "0 < n" using True by (simp add: n_def)
  have nx: "real_of_int n \<le> \<bar>x\<bar>" by (simp add: n_def)
  have b1: "0 \<le> bitlen n - 1" using n1 by (simp add: bitlen_alt_def)
  from bitlen_bounds[OF n1] have "2 ^ nat (bitlen n - 1) \<le> n" by simp
  then have "(2::real) ^ nat (bitlen n - 1) \<le> real_of_int n"
    by (metis of_int_le_iff of_int_numeral of_int_power)
  moreover have "(2::real) powi (bitlen n - 1) = 2 ^ nat (bitlen n - 1)"
    using b1 by (rule power_int_nonneg_exp)
  ultimately have "(2::real) powi (bitlen n - 1) \<le> \<bar>x\<bar>"
    using nx by linarith
  then show ?thesis using True by (simp add: exponent_of_def n_def)
next
  case False
  assume x: "x \<noteq> 0"
  define z where "z = 1 / \<bar>x\<bar>"
  define m where "m = \<lceil>z\<rceil> - 1"
  have z1: "1 < z" using False x by (simp add: z_def)
  have m1: "0 < m" using z1 by (simp add: m_def; linarith)
  have zm: "z \<le> real_of_int m + 1" by (simp add: m_def)
  from bitlen_bounds[OF m1] have "m < 2 ^ nat (bitlen m)" by simp
  then have "m + 1 \<le> 2 ^ nat (bitlen m)" by simp
  then have "real_of_int (m + 1) \<le> real_of_int (2 ^ nat (bitlen m))"
    by (simp only: of_int_le_iff)
  then have "z \<le> 2 ^ nat (bitlen m)" using zm by simp
  then have "1 / 2 ^ nat (bitlen m) \<le> 1 / z"
    using z1 by (simp add: frac_le)
  moreover have "1 / z = \<bar>x\<bar>" using x by (simp add: z_def)
  moreover have "(2::real) powi (- bitlen m) = 1 / 2 ^ nat (bitlen m)"
    by (simp add: power_int_minus_divide power_int_nonneg_exp bitlen_nonneg)
  ultimately show ?thesis using False by (simp add: exponent_of_def z_def m_def)
qed

lemma exponent_upper: "x \<noteq> 0 \<Longrightarrow> \<bar>x\<bar> < 2 powi (exponent_of x + 1)"
proof (cases "1 \<le> \<bar>x\<bar>")
  case True
  define n where "n = \<lfloor>\<bar>x\<bar>\<rfloor>"
  have n1: "0 < n" using True by (simp add: n_def)
  have nx: "\<bar>x\<bar> < real_of_int n + 1" by (simp add: n_def)
  from bitlen_bounds[OF n1] have "n < 2 ^ nat (bitlen n)" by simp
  then have "n + 1 \<le> 2 ^ nat (bitlen n)" by simp
  then have "real_of_int (n + 1) \<le> real_of_int (2 ^ nat (bitlen n))"
    by (simp only: of_int_le_iff)
  then have "\<bar>x\<bar> < 2 ^ nat (bitlen n)" using nx by simp
  then have "\<bar>x\<bar> < 2 powi (bitlen n)"
    by (simp add: power_int_nonneg_exp bitlen_nonneg)
  then show ?thesis using True by (simp add: exponent_of_def n_def)
next
  case False
  assume x: "x \<noteq> 0"
  define z where "z = 1 / \<bar>x\<bar>"
  define m where "m = \<lceil>z\<rceil> - 1"
  have z1: "1 < z" using False x by (simp add: z_def)
  have m1: "0 < m" using z1 by (simp add: m_def; linarith)
  have mz: "real_of_int m < z" by (simp add: m_def; linarith)
  have b1: "0 \<le> bitlen m - 1" using m1 by (simp add: bitlen_alt_def)
  from bitlen_bounds[OF m1] have "2 ^ nat (bitlen m - 1) \<le> m" by simp
  then have "(2::real) ^ nat (bitlen m - 1) \<le> real_of_int m"
    by (metis of_int_le_iff of_int_numeral of_int_power)
  then have "(2::real) ^ nat (bitlen m - 1) < z" using mz by linarith
  then have "1 / z < 1 / 2 ^ nat (bitlen m - 1)"
    by (simp add: frac_less2)
  moreover have "1 / z = \<bar>x\<bar>" using x by (simp add: z_def)
  moreover have "(2::real) powi (- bitlen m + 1) = 1 / 2 ^ nat (bitlen m - 1)"
  proof -
    have "(2::real) powi (- bitlen m + 1) = 2 powi (- (bitlen m - 1))" by simp
    also have "\<dots> = 1 / 2 powi (bitlen m - 1)" by (simp only: power_int_minus_divide)
    also have "\<dots> = 1 / 2 ^ nat (bitlen m - 1)" using b1 by (simp add: power_int_nonneg_exp)
    finally show ?thesis .
  qed
  ultimately show ?thesis using False by (simp add: exponent_of_def z_def m_def)
qed

lemma exponent_unique:
  assumes "2 powi e \<le> \<bar>x\<bar>" and "\<bar>x\<bar> < 2 powi (e + 1)"
  shows "exponent_of x = e"
proof -
  have pos: "(0::real) < 2 powi e" by simp
  have "0 < \<bar>x\<bar>" using assms(1) pos by linarith
  then have x: "x \<noteq> 0" by auto
  have "(2::real) powi exponent_of x < 2 powi (e + 1)"
    using exponent_lower[OF x] assms(2) by simp
  then have "exponent_of x < e + 1"
    by (metis not_le one_less_numeral_iff power_int_increasing less_imp_le semiring_norm(76))
  moreover have "(2::real) powi e < 2 powi (exponent_of x + 1)"
    using exponent_upper[OF x] assms(1) by simp
  then have "e < exponent_of x + 1"
    by (metis not_le one_less_numeral_iff power_int_increasing less_imp_le semiring_norm(76))
  ultimately show ?thesis by simp
qed


lemma round_half_even_int: "round_half_even (real_of_int n) = n"
  by (simp add: round_half_even_def)

lemma rd_exact:
  assumes m: "\<bar>m\<bar> < 2 ^ 53" and e: "- 1074 \<le> e"
  shows "rd (real_of_int m * 2 powi e) = real_of_int m * 2 powi e"
proof (cases "m = 0")
  case True
  then show ?thesis by (simp add: rd_def)
next
  case False
  define x where "x = real_of_int m * 2 powi e"
  define u where "u = max (exponent_of x) (- 1022) - 52"
  have x0: "x \<noteq> 0" using False by (simp add: x_def)
  have "\<bar>x\<bar> = real_of_int \<bar>m\<bar> * 2 powi e"
    by (simp add: x_def abs_mult)
  moreover have "real_of_int \<bar>m\<bar> < 2 ^ 53"
    using m by (metis of_int_less_iff of_int_numeral of_int_power)
  ultimately have "\<bar>x\<bar> < 2 ^ 53 * 2 powi e"
    by (simp add: mult_strict_right_mono)
  also have "\<dots> = 2 powi (53 + e)"
    by (simp add: power_int_add)
  finally have "(2::real) powi exponent_of x < 2 powi (53 + e)"
    using exponent_lower[OF x0] by linarith
  then have "exponent_of x < 53 + e"
    by (metis not_le one_less_numeral_iff power_int_increasing less_imp_le semiring_norm(76))
  then have ue: "u \<le> e" using e by (simp add: u_def)
  define N where "N = m * 2 ^ nat (e - u)"
  have "(2::real) powi e = 2 powi (e - u) * 2 powi u"
    by (simp add: power_int_add[symmetric])
  moreover have "(2::real) powi (e - u) = 2 ^ nat (e - u)"
    using ue by (simp add: power_int_nonneg_exp)
  ultimately have xN: "x = real_of_int N * 2 powi u"
    by (simp add: x_def N_def)
  then have "x / 2 powi u = real_of_int N" by simp
  then have "round_half_even (x / 2 powi u) = N"
    by (simp only: round_half_even_int)
  then have "rd x = real_of_int N * 2 powi u"
    using x0 by (simp add: rd_def u_def Let_def)
  then show ?thesis using xN by (simp add: x_def)
qed

lemma fl_exact:
  assumes "\<bar>m\<bar> < 2 ^ 53" and "- 1074 \<le> e" and "\<bar>real_of_int m * 2 powi e\<bar> < 2 ^ 1024"
  shows "fl (real_of_int m * 2 powi e) = Some (real_of_int m * 2 powi e)"
  using assms(3) by (simp add: fl_def rd_exact[OF assms(1,2)] Let_def)

lemma fl_int:
  assumes "\<bar>m\<bar> < 2 ^ 53"
  shows "fl (real_of_int m) = Some (real_of_int m)"
proof -
  have "real_of_int \<bar>m\<bar> < 2 ^ 53"
    using assms by (metis of_int_less_iff of_int_numeral of_int_power)
  then have "\<bar>real_of_int m * 2 powi 0\<bar> < 2 ^ 1024" by simp
  from fl_exact[OF assms _ this] show ?thesis by simp
qed

lemma rd_at:
  assumes "2 powi e \<le> \<bar>x\<bar>" and "\<bar>x\<bar> < 2 powi (e + 1)"
  shows "rd x = real_of_int (round_half_even (x / 2 powi (max e (- 1022) - 52)))
                  * 2 powi (max e (- 1022) - 52)"
proof -
  have "(0::real) < 2 powi e" by simp
  then have "0 < \<bar>x\<bar>" using assms(1) by linarith
  then have "x \<noteq> 0" by auto
  then show ?thesis
    by (simp add: rd_def exponent_unique[OF assms] Let_def)
qed

lemma round_half_even_error: "\<bar>real_of_int (round_half_even q) - q\<bar> \<le> 1 / 2"
proof -
  have "real_of_int \<lfloor>q\<rfloor> \<le> q" "q < real_of_int \<lfloor>q\<rfloor> + 1" by linarith+
  then show ?thesis
    by (auto simp add: round_half_even_def Let_def)
qed

lemma rd_error:
  assumes "x \<noteq> 0"
  shows "\<bar>rd x - x\<bar> \<le> 2 powi (max (exponent_of x) (- 1022) - 52) / 2"
proof -
  define u where "u = max (exponent_of x) (- 1022) - 52"
  define q where "q = x / 2 powi u"
  have p: "(0::real) < 2 powi u" by simp
  have x: "x = q * 2 powi u" by (simp add: q_def)
  have "rd x = real_of_int (round_half_even q) * 2 powi u"
    using assms by (simp add: rd_def u_def q_def Let_def)
  then have "rd x - x = (real_of_int (round_half_even q) - q) * 2 powi u"
    using x by (simp add: algebra_simps)
  then have "\<bar>rd x - x\<bar> = \<bar>real_of_int (round_half_even q) - q\<bar> * 2 powi u"
    using p by (simp add: abs_mult)
  also have "\<dots> \<le> (1 / 2) * 2 powi u"
    using round_half_even_error[of q] p by (intro mult_right_mono) simp_all
  finally show ?thesis by (simp add: u_def)
qed

lemma ulp_bound:
  assumes "x \<noteq> 0"
  shows "2 powi (max (exponent_of x) (- 1022) - 52) \<le> \<bar>x\<bar> + 1"
proof (cases "- 1022 \<le> exponent_of x")
  case True
  have "(2::real) powi (exponent_of x - 52) \<le> 2 powi exponent_of x"
    by (intro power_int_increasing) simp_all
  also have "\<dots> \<le> \<bar>x\<bar>" using assms by (rule exponent_lower)
  finally show ?thesis using True by (simp add: max_def)
next
  case False
  have "(2::real) powi (- 1074) \<le> 2 powi 0"
    by (intro power_int_increasing) simp_all
  then have "(2::real) powi (- 1074) \<le> \<bar>x\<bar> + 1" by simp
  then show ?thesis using False by (simp add: max_def)
qed

lemma rd_close: "\<bar>rd x - x\<bar> \<le> (\<bar>x\<bar> + 1) / 2"
proof (cases "x = 0")
  case True
  then show ?thesis by (simp add: rd_def)
next
  case False
  define w :: real where "w = 2 powi (max (exponent_of x) (- 1022) - 52)"
  have "\<bar>rd x - x\<bar> \<le> w / 2" unfolding w_def using False by (rule rd_error)
  moreover have "w \<le> \<bar>x\<bar> + 1" unfolding w_def using False by (rule ulp_bound)
  ultimately show ?thesis by argo
qed


lemma rd_bound: "\<bar>rd x\<bar> \<le> 2 * \<bar>x\<bar> + 1"
  using rd_close[of x] by argo

lemma fl_small: "\<bar>x\<bar> \<le> 345600 \<Longrightarrow> fl x = Some (rd x)"
proof -
  assume "\<bar>x\<bar> \<le> 345600"
  then have "\<bar>rd x\<bar> \<le> 691201" using rd_bound[of x] by linarith
  moreover have "(691201::real) < 2 ^ 1024" by simp
  ultimately have "\<bar>rd x\<bar> < 2 ^ 1024" by linarith
  then show ?thesis by (simp add: fl_def Let_def)
qed

lemma fl_zero: "fl 0 = Some 0"
  by (simp add: fl_def rd_def)


lemma c_fmod_shift:
  assumes "0 < y" and "0 \<le> r" and "r < y"
  shows "c_fmod (real n * y + r) y = r"
proof -
  have "(real n * y + r) / y = real_of_int (int n) + r / y"
    using assms by (simp add: field_simps)
  moreover have "\<lfloor>real_of_int (int n) + r / y\<rfloor> = int n"
    using assms by (simp add: floor_unique)
  moreover have "0 \<le> real_of_int (int n) + r / y"
    using assms by simp
  ultimately show ?thesis by (simp add: c_fmod_def py_int_def)
qed

lemma cycle_s_val: "real_of_int cycle_s = 345600"
  by (simp add: cycle_s_def FREE_WILL_CYCLE_HRS_def)

lemma fl_cycle: "fl 345600 = Some 345600"
  using fl_int[of 345600] by simp

lemma free_will_at_multiple:
  assumes "fl (now - anchor) = Some (real n * 345600)"
  shows "free_will_remaining now anchor = Some 345600"
proof -
  have "c_fmod (real n * 345600 + 0) 345600 = 0"
    by (rule c_fmod_shift) simp_all
  then show ?thesis
    using assms by (simp add: free_will_remaining_def float_rem_def cycle_s_val fl_cycle Let_def)
qed

lemma free_will_between:
  assumes "fl (now - anchor) = Some (real n * 345600 + r)" and "0 < r" and "r < 345600"
  shows "free_will_remaining now anchor = Some (rd (345600 - r))"
proof -
  have "c_fmod (real n * 345600 + r) 345600 = r"
    using assms(2,3) by (intro c_fmod_shift) simp_all
  moreover have "fl (345600 - r) = Some (rd (345600 - r))"
    using assms(2,3) by (intro fl_small) simp
  ultimately show ?thesis
    using assms by (simp add: free_will_remaining_def float_rem_def cycle_s_val Let_def)
qed

text \<open>
  C4, as the code has it. \<open>free_will_remaining\<close> computes on doubles, and the difference
  \<open>now - anchor\<close> is rounded first. With \<open>L = cycle_s = FREE_WILL_CYCLE_HRS * 3600\<close>: when the
  rounded difference is \<open>n * L\<close> for a natural number \<open>n\<close>, the result is exactly \<open>L\<close>, not
  0; so it is at \<open>anchor + n * L\<close> whenever the difference \<open>n * L\<close> is exact, \<open>n * L\<close> being a
  double. When the rounded difference is \<open>n * L + r\<close> with \<open>0 < r < L\<close>, the result is
  \<open>L - r\<close> rounded to a double.
\<close>

theorem free_will_remaining_cycle:
  "(fl (now - anchor) = Some (real n * real_of_int cycle_s)
      \<longrightarrow> free_will_remaining now anchor = Some (real_of_int cycle_s))
   \<and> (now - anchor = real n * real_of_int cycle_s \<and> is_double (real n * real_of_int cycle_s)
      \<longrightarrow> free_will_remaining now anchor = Some (real_of_int cycle_s))
   \<and> (fl (now - anchor) = Some (real n * real_of_int cycle_s + r)
        \<and> 0 < r \<and> r < real_of_int cycle_s
      \<longrightarrow> free_will_remaining now anchor = Some (rd (real_of_int cycle_s - r)))"
  unfolding cycle_s_val
  using free_will_at_multiple[of now anchor n] free_will_between[of now anchor n r]
  by (auto simp add: is_double_def)

theorem free_will_remaining_cycle_witness:
  "free_will_remaining (1700000000 + real 2 * real_of_int cycle_s) 1700000000 = Some 345600
   \<and> free_will_remaining (1700000000 + real 2 * real_of_int cycle_s + 100) 1700000000
       = Some 345500"
proof -
  have d1: "is_double (real 2 * real_of_int cycle_s)"
    using fl_int[of 691200] by (simp add: is_double_def cycle_s_val)
  have e1: "(1700000000 + real 2 * real_of_int cycle_s) - 1700000000
              = real 2 * real_of_int cycle_s"
    by simp
  have d2: "fl ((1700000000 + real 2 * real_of_int cycle_s + 100) - 1700000000)
              = Some (real 2 * real_of_int cycle_s + 100)"
    using fl_int[of 691300] by (simp add: cycle_s_val)
  have r: "(0::real) < 100 \<and> (100::real) < real_of_int cycle_s"
    by (simp add: cycle_s_val)
  have v: "rd (real_of_int cycle_s - 100) = 345500"
    using rd_exact[of 345500 0] by (simp add: cycle_s_val)
  from free_will_remaining_cycle[of "1700000000 + real 2 * real_of_int cycle_s" 1700000000 2]
    e1 d1
  have a: "free_will_remaining (1700000000 + real 2 * real_of_int cycle_s) 1700000000
          = Some (real_of_int cycle_s)"
    by blast
  from free_will_remaining_cycle[of "1700000000 + real 2 * real_of_int cycle_s + 100"
      1700000000 2 100] d2 r
  have b: "free_will_remaining (1700000000 + real 2 * real_of_int cycle_s + 100) 1700000000
          = Some (rd (real_of_int cycle_s - 100))"
    by blast
  show ?thesis using a b v by (simp add: cycle_s_val)
qed

text \<open>
  C4 as stated fails on doubles. The doubles nearest 2419200.3 and 0.3 are \<open>6 * L + r\<close>
  apart with \<open>0 < r < L\<close>, a time strictly between two multiples of \<open>L\<close>; their difference
  rounds to \<open>7 * L\<close>, and the result is \<open>L\<close>, not \<open>L - r\<close>.
\<close>

theorem free_will_remaining_rounds_counterexample:
  "is_double (2597596542743347 / 1073741824)
   \<and> is_double (5404319552844595 / 18014398509481984)
   \<and> 2597596542743347 / 1073741824
        = 5404319552844595 / 18014398509481984 + real 6 * real_of_int cycle_s
            + (345600 - 3355443 / 18014398509481984)
   \<and> (0::real) < 345600 - 3355443 / 18014398509481984
   \<and> 345600 - 3355443 / 18014398509481984 < real_of_int cycle_s
   \<and> free_will_remaining (2597596542743347 / 1073741824)
        (5404319552844595 / 18014398509481984) = Some 345600
   \<and> free_will_remaining (2597596542743347 / 1073741824)
        (5404319552844595 / 18014398509481984)
       \<noteq> Some (real_of_int cycle_s - (345600 - 3355443 / 18014398509481984))"
proof -
  let ?x = "2597596542743347 / 1073741824 - 5404319552844595 / 18014398509481984 :: real"
  have n: "is_double (2597596542743347 / 1073741824)"
    using fl_exact[of 2597596542743347 "- 30"]
    by (simp add: is_double_def power_int_minus_divide)
  have a: "is_double (5404319552844595 / 18014398509481984)"
    using fl_exact[of 5404319552844595 "- 54"]
    by (simp add: is_double_def power_int_minus_divide)
  have "rd ?x = 2419200"
    by (subst rd_at[where e = 21])
       (simp_all add: round_half_even_def Let_def power_int_minus_divide)
  then have "fl ?x = Some (real 7 * 345600)" by (simp add: fl_def Let_def)
  then have v: "free_will_remaining (2597596542743347 / 1073741824)
        (5404319552844595 / 18014398509481984) = Some 345600"
    by (rule free_will_at_multiple)
  show ?thesis using n a v by (simp add: cycle_s_val)
qed

subsection \<open>Ranges and examples of real_to_sb\<close>

text \<open>
  C5. At every instant the moment returned by \<open>real_to_sb\<close> has its time of day in
  \<open>[0, 86400)\<close>, its day of month in \<open>[1, 31]\<close> and its month at least 1.
\<close>

theorem real_to_sb_ranges:
  "0 \<le> sb_time_of_day (real_to_sb t) \<and> sb_time_of_day (real_to_sb t) < 86400
   \<and> 1 \<le> day (real_to_sb t) \<and> day (real_to_sb t) \<le> 31 \<and> 1 \<le> month (real_to_sb t)"
proof -
  have "0 \<le> \<lfloor>clamped_elapsed t / 1200\<rfloor> div 31"
    using total_days_nonneg[of t] by (simp add: pos_imp_zdiv_nonneg_iff)
  then show ?thesis
    using py_fmod_nonneg[of 86400 "72 * clamped_elapsed t"]
      py_fmod_less[of 86400 "72 * clamped_elapsed t"]
    by (simp add: sb_time_of_day_eq day_eq month_eq)
qed

text \<open>
  C9. At the epoch plus 1200 real seconds, one derived day, \<open>real_to_sb\<close> yields day 2 of
  month 1, hour 0, minute 0.
\<close>

theorem real_to_sb_one_day:
  "real_to_sb (1560275700 + 1200) =
     \<lparr> month = 1, day = 2, hour = 0, minute = 0,
       sb_seconds_elapsed = 86400, sb_time_of_day = 0, real_elapsed = 1200 \<rparr>"
  by (simp add: real_to_sb_def clamped_elapsed_def Let_def py_int_def py_floordiv_def
      py_fmod_def sb_consts)

subsection \<open>The month in double arithmetic\<close>




lemma real_to_sb_double_months:
  assumes "1569375 * int k < 2 ^ 53"
  shows "real_to_sb_double (1560275700 + 37200 * real k) =
     Some \<lparr> month = int k + 1, day = 1, hour = 0, minute = 0,
            sb_seconds_elapsed = 2678400 * real k, sb_time_of_day = 0,
            real_elapsed = 37200 * real k \<rparr>"
proof -
  have e: "fl (37200 * real k) = Some (37200 * real k)"
    using fl_int[of "37200 * int k"] assms by simp
  have "\<bar>real_of_int (1569375 * int k) * 2 powi 11\<bar> < 2 ^ 1024"
  proof -
    have "real_of_int (1569375 * int k) < real_of_int (2 ^ 53)"
      using assms by (simp only: of_int_less_iff)
    then have "real_of_int (1569375 * int k) * 2 powi 11 < 2 ^ 53 * 2 powi 11"
      by simp
    then show ?thesis by simp
  qed
  from fl_exact[of "1569375 * int k" 11, OF _ _ this] assms
  have p: "fl (3214080000 * real k) = Some (3214080000 * real k)" by simp
  have "\<bar>real_of_int (20925 * int k) * 2 powi 7\<bar> < 2 ^ 1024"
  proof -
    have "real_of_int (1569375 * int k) < real_of_int (2 ^ 53)"
      using assms by (simp only: of_int_less_iff)
    then have "real_of_int (20925 * int k) * 2 powi 7 < 2 ^ 53 * 2 powi 7"
      by simp
    then show ?thesis by simp
  qed
  from fl_exact[of "20925 * int k" 7, OF _ _ this] assms
  have s: "fl (2678400 * real k) = Some (2678400 * real k)" by simp
  have q: "fl (31 * real k) = Some (31 * real k)"
    using fl_int[of "31 * int k"] assms by simp
  have m: "c_fmod (2678400 * real k) 86400 = 0"
    using c_fmod_shift[of 86400 0 "31 * k"] by simp
  have fd: "float_floor_div (Some (2678400 * real k)) 86400 = Some (31 * real k)"
  proof -
    have "\<lfloor>31 * real k\<rfloor> = 31 * int k"
    proof -
      have "31 * real k = real_of_int (31 * int k)" by simp
      then show ?thesis by (simp only: floor_of_int)
    qed
    then show ?thesis
      by (simp add: float_floor_div_def float_div_def m s q Let_def rd_def)
  qed
  have z: "float_floor_div (Some 0) w = Some 0" for w
    by (simp add: float_floor_div_def float_div_def c_fmod_def py_int_def fl_zero Let_def)
  have "py_int (31 * real k) = 31 * int k"
  proof -
    have "31 * real k = real_of_int (31 * int k)" by simp
    then show ?thesis by (simp only: py_int_def floor_of_int) simp
  qed
  then show ?thesis
    by (simp add: real_to_sb_double_def sb_consts Let_def e p s fd z
        float_mul_def float_div_def float_rem_def m c_fmod_def py_int_def)
qed

lemma real_to_sb_months:
  "real_to_sb (1560275700 + 37200 * real k) =
     \<lparr> month = int k + 1, day = 1, hour = 0, minute = 0,
       sb_seconds_elapsed = 2678400 * real k, sb_time_of_day = 0,
       real_elapsed = 37200 * real k \<rparr>"
proof -
  have c: "clamped_elapsed (1560275700 + 37200 * real k) = 37200 * real k"
    by (rule clamped_elapsed_after) simp
  have f: "\<lfloor>31 * real k\<rfloor> = 31 * int k"
  proof -
    have "31 * real k = real_of_int (31 * int k)" by simp
    then show ?thesis by (simp only: floor_of_int)
  qed
  show ?thesis
    by (simp add: real_to_sb_def c Let_def sb_consts py_floordiv_def py_fmod_def py_int_def f)
qed

lemma real_to_sb_double_agrees:
  assumes "1569375 * int k < 2 ^ 53"
  shows "real_to_sb_double (1560275700 + 37200 * real k)
           = Some (real_to_sb (1560275700 + 37200 * real k))"
  by (simp only: real_to_sb_double_months[OF assms] real_to_sb_months)









section \<open>Properties of the workers\<close>

lemma safe_cmd_disconnected: "\<not> connected_flag w \<Longrightarrow> safe_cmd cl cmd (w, b) = (w, b)"
  by (simp add: safe_cmd_def)

lemma poll_fails:
  "poll_body cl pf b = (Inl e, b1) \<Longrightarrow> poll cl pf (w, b) = (w\<lparr>connected_flag := False\<rparr>, b1, [])"
  by (simp add: poll_def)

lemma tick_connected:
  "connected_flag w \<Longrightarrow> mopidy_tick cl pf av (w, b) = poll cl pf (w, b)"
  by (simp add: mopidy_tick_def split: prod.splits)

lemma try_connect_fails:
  assumes "connect_fails cl av b"
  shows "\<exists>w1 b1. try_connect cl av (w, b) = (w1, b1, fallback_events)
           \<and> connected_flag w1 = connected_flag w \<and> running w1 = running w"
  using assms
  by (auto simp add: connect_fails_def try_connect_def Let_def split: prod.splits sum.splits)

lemma tick_connect_fails:
  assumes "\<not> connected_flag w" "connect_fails cl av b"
  shows "\<exists>w1 b1. mopidy_tick cl pf av (w, b) = (w1, b1, fallback_events)
           \<and> \<not> connected_flag w1 \<and> running w1 = running w"
proof -
  from try_connect_fails[OF assms(2), of w] obtain w1 b1 where
    t: "try_connect cl av (w, b) = (w1, b1, fallback_events)"
    and c: "connected_flag w1 = connected_flag w" and r: "running w1 = running w" by blast
  have "mopidy_tick cl pf av (w, b) = (w1, b1, fallback_events)"
    using assms(1) t c by (simp add: mopidy_tick_def)
  then show ?thesis using c r assms(1) by simp
qed

lemma run_all_fail:
  assumes "running w" "\<not> connected_flag w" "connect_fails_for cl pf av n (w, b)"
  shows "map snd (mopidy_run cl pf av n (w, b)) = replicate n fallback_events
       \<and> (\<forall>w1 \<in> set (map fst (mopidy_run cl pf av n (w, b))). \<not> connected_flag w1)"
  using assms
proof (induction n arbitrary: w b)
  case 0
  then show ?case by simp
next
  case (Suc n)
  from Suc.prems have cf: "connect_fails cl av b" by simp
  from tick_connect_fails[OF Suc.prems(2) cf, of pf] obtain w1 b1 where
    t: "mopidy_tick cl pf av (w, b) = (w1, b1, fallback_events)"
    and c: "\<not> connected_flag w1" and r: "running w1 = running w" by blast
  from Suc.prems(3) t have rest: "connect_fails_for cl pf av n (w1, b1)" by simp
  from Suc.prems(1) r have r1: "running w1" by simp
  from Suc.IH[OF r1 c rest] t c Suc.prems(1) show ?case by simp
qed

lemma count_fallback:
  "count_list (concat (replicate n fallback_events)) (TrackUpdated MOCK_TRACK) = n"
  by (induction n) (simp_all add: fallback_events_def)

lemma moonraker_poll_fails: "request_fails rav h \<Longrightarrow> moonraker_poll rav h = [MOCK_PRINTER]"
  by (auto simp add: request_fails_def moonraker_poll_def moonraker_body_def)

lemma moonraker_run_all_fail:
  "\<forall>h \<in> set hs. request_fails rav h \<Longrightarrow>
   moonraker_run rav True hs = replicate (length hs) [MOCK_PRINTER]"
  by (induction hs) (simp_all add: moonraker_poll_fails)

lemma json_get_sub:
  "map_of kvs k = None \<and> st = [] \<or> map_of kvs k = Some (JObj st) \<Longrightarrow>
   json_get (JObj kvs) k (JObj []) = Inr (JObj st)"
  by (auto simp add: get_default_def)

lemma normalize_val:
  assumes "map_of kvs ''print_stats'' = None \<and> st = [] \<or> map_of kvs ''print_stats'' = Some (JObj st)"
    and "map_of kvs ''extruder'' = None \<and> ex = [] \<or> map_of kvs ''extruder'' = Some (JObj ex)"
    and "map_of kvs ''heater_bed'' = None \<and> bd = [] \<or> map_of kvs ''heater_bed'' = Some (JObj bd)"
  shows "normalize_status (JObj kvs) = Inr \<lparr>
       printer_state = get_default (map_of st) ''state'' (JStr ''standby''),
       progress = get_default (map_of st) ''progress'' (JNum 0),
       hotend_temp = get_default (map_of ex) ''temperature'' (JNum 0),
       hotend_target = get_default (map_of ex) ''target'' (JNum 0),
       bed_temp = get_default (map_of bd) ''temperature'' (JNum 0),
       bed_target = get_default (map_of bd) ''target'' (JNum 0) \<rparr>"
  unfolding normalize_status_def
  by (simp only: json_get_sub[OF assms(1)] json_get_sub[OF assms(2)] json_get_sub[OF assms(3)])
     (simp add: bind_sum_def)

lemma safe_cmd_connected_shuffle:
  "connected_flag w \<Longrightarrow>
   safe_cmd cl (Shuffle on) (w, b) =
     (case c_command cl (Random (if on then 1 else 0)) b of
        (Inr u, b1) \<Rightarrow> (w, b1)
      | (Inl e, b1) \<Rightarrow> (w\<lparr>connected_flag := False\<rparr>, b1))"
  by (simp add: safe_cmd_def)

text \<open>
  C7. A control command issued while the worker is disconnected returns at the guard of
  \<open>safe_cmd\<close>: worker and backend are unchanged (nothing is queued or sent), and the
  next iteration of the loop publishes what it would have published without the command.
\<close>

theorem safe_cmd_disconnected_dropped:
  "\<not> connected_flag w \<Longrightarrow>
   safe_cmd cl cmd (w, b) = (w, b)
   \<and> mopidy_tick cl pf av (safe_cmd cl cmd (w, b)) = mopidy_tick cl pf av (w, b)"
  by (simp add: safe_cmd_disconnected)

theorem safe_cmd_disconnected_dropped_witness:
  "safe_cmd
     \<lparr> c_connect = \<lambda>h p. return_ok (),
       c_status = \<lambda>b. (Inr [''random'' \<mapsto> (if b then ''1'' else ''0'')], b),
       c_currentsong = return_ok Map.empty,
       c_listplaylists = return_ok [],
       c_command = \<lambda>c b. (Inr (), case c of Random n \<Rightarrow> n = 1 | _ \<Rightarrow> b) \<rparr>
     (Shuffle True) (\<lparr> running = True, client = None, connected_flag = False \<rparr>, False)
   = (\<lparr> running = True, client = None, connected_flag = False \<rparr>, False)
   \<and> mopidy_tick
     \<lparr> c_connect = \<lambda>h p. return_ok (),
       c_status = \<lambda>b. (Inr [''random'' \<mapsto> (if b then ''1'' else ''0'')], b),
       c_currentsong = return_ok Map.empty,
       c_listplaylists = return_ok [],
       c_command = \<lambda>c b. (Inr (), case c of Random n \<Rightarrow> n = 1 | _ \<Rightarrow> b) \<rparr>
     Map.empty True
     (safe_cmd
       \<lparr> c_connect = \<lambda>h p. return_ok (),
       c_status = \<lambda>b. (Inr [''random'' \<mapsto> (if b then ''1'' else ''0'')], b),
       c_currentsong = return_ok Map.empty,
       c_listplaylists = return_ok [],
       c_command = \<lambda>c b. (Inr (), case c of Random n \<Rightarrow> n = 1 | _ \<Rightarrow> b) \<rparr>
       (Shuffle True) (\<lparr> running = True, client = None, connected_flag = False \<rparr>, False))
   = (\<lparr> running = True, client = Some (), connected_flag = True \<rparr>, False,
      [TrackUpdated \<lparr> title = ''Unknown'', artist = ''Unknown'', album = [], duration = 0,
         elapsed = 0, track_state = ''stop'', shuffle = False, repeat = False \<rparr>,
       PlaylistsUpdated []])"
proof -
  let ?cl = "\<lparr> c_connect = \<lambda>h p. return_ok (),
       c_status = \<lambda>b. (Inr [''random'' \<mapsto> (if b then ''1'' else ''0'')], b),
       c_currentsong = return_ok Map.empty,
       c_listplaylists = return_ok [],
       c_command = \<lambda>c b. (Inr (), case c of Random n \<Rightarrow> n = 1 | _ \<Rightarrow> b) \<rparr>"
  let ?w = "\<lparr> running = True, client = None, connected_flag = False \<rparr>"
  have d: "\<not> connected_flag ?w" by simp
  have t: "mopidy_tick ?cl Map.empty True (?w, False)
    = (\<lparr> running = True, client = Some (), connected_flag = True \<rparr>, False,
      [TrackUpdated \<lparr> title = ''Unknown'', artist = ''Unknown'', album = [], duration = 0,
         elapsed = 0, track_state = ''stop'', shuffle = False, repeat = False \<rparr>,
       PlaylistsUpdated []])"
    by (simp add: mopidy_tick_def try_connect_def poll_def poll_body_def bind_exn_def
        return_ok_def raise_exn_def Let_def make_track_def float_field_def get_default_def)
  from safe_cmd_disconnected_dropped[OF d, of ?cl "Shuffle True" False Map.empty True]
  have "safe_cmd ?cl (Shuffle True) (?w, False) = (?w, False)"
    and "mopidy_tick ?cl Map.empty True (safe_cmd ?cl (Shuffle True) (?w, False))
           = mopidy_tick ?cl Map.empty True (?w, False)"
    by blast+
  then show ?thesis by (simp only: t)
qed

text \<open>
  What an iteration does when the \<^verbatim>\<open>try\<close> block of \<open>poll\<close> raises on a connected worker:
  nothing is emitted, the worker becomes disconnected, and no exception leaves
  \<open>mopidy_tick\<close>; a fallback comes only from a failing connection attempt in the next
  iteration.
\<close>

lemma poll_failure_tick:
  assumes "connected_flag w" and "poll_body cl pf b = (Inl e, b1)"
  shows "mopidy_tick cl pf av (w, b) = (w\<lparr>connected_flag := False\<rparr>, b1, [])
    \<and> (connect_fails cl av b1 \<longrightarrow>
         (\<exists>w2 b2. mopidy_tick cl pf av (w\<lparr>connected_flag := False\<rparr>, b1)
                     = (w2, b2, fallback_events)
            \<and> \<not> connected_flag w2))"
proof -
  have "mopidy_tick cl pf av (w, b) = (w\<lparr>connected_flag := False\<rparr>, b1, [])"
    using assms by (simp add: tick_connected poll_fails)
  moreover have "\<exists>w2 b2. mopidy_tick cl pf av (w\<lparr>connected_flag := False\<rparr>, b1)
                   = (w2, b2, fallback_events) \<and> \<not> connected_flag w2"
    if "connect_fails cl av b1"
    using tick_connect_fails[OF _ that, of "w\<lparr>connected_flag := False\<rparr>" pf] by auto
  ultimately show ?thesis by blast
qed

text \<open>
  C3. The handlers of \<^verbatim>\<open>MoonrakerWorker._poll\<close> and of \<^verbatim>\<open>_try_connect\<close> emit the fallback in
  the iteration that fails; the handler of \<^verbatim>\<open>MopidyWorker._poll\<close> does not. On a connected
  worker whose backend has gone away the poll raises, the partial result is discarded
  and the worker becomes disconnected, but the iteration emits no event at all, so no
  fallback record, where the claim has one emitted.
\<close>

theorem poll_failure_emits_no_fallback:
  "connected_flag \<lparr> running = True, client = Some (), connected_flag = True \<rparr>
   \<and> fst (poll_body
     \<lparr> c_connect = \<lambda>h p. raise_exn (Exn ''ConnectionRefusedError''),
       c_status = raise_exn (Exn ''ConnectionError''),
       c_currentsong = raise_exn (Exn ''ConnectionError''),
       c_listplaylists = raise_exn (Exn ''ConnectionError''),
       c_command = \<lambda>c. raise_exn (Exn ''ConnectionError'') \<rparr>
     Map.empty ()) = Inl (Exn ''ConnectionError'')
   \<and> mopidy_tick
     \<lparr> c_connect = \<lambda>h p. raise_exn (Exn ''ConnectionRefusedError''),
       c_status = raise_exn (Exn ''ConnectionError''),
       c_currentsong = raise_exn (Exn ''ConnectionError''),
       c_listplaylists = raise_exn (Exn ''ConnectionError''),
       c_command = \<lambda>c. raise_exn (Exn ''ConnectionError'') \<rparr>
     Map.empty True (\<lparr> running = True, client = Some (), connected_flag = True \<rparr>, ())
     = (\<lparr> running = True, client = Some (), connected_flag = False \<rparr>, (), [])
   \<and> TrackUpdated MOCK_TRACK \<notin> set (snd (snd (mopidy_tick
     \<lparr> c_connect = \<lambda>h p. raise_exn (Exn ''ConnectionRefusedError''),
       c_status = raise_exn (Exn ''ConnectionError''),
       c_currentsong = raise_exn (Exn ''ConnectionError''),
       c_listplaylists = raise_exn (Exn ''ConnectionError''),
       c_command = \<lambda>c. raise_exn (Exn ''ConnectionError'') \<rparr>
     Map.empty True (\<lparr> running = True, client = Some (), connected_flag = True \<rparr>, ()))))"
  by (simp add: mopidy_tick_def poll_def poll_body_def bind_exn_def raise_exn_def)

text \<open>
  C6. A music worker that is running and disconnected, and whose connection attempt
  fails in each of \<open>n\<close> consecutive iterations, emits in each of them exactly the fallback
  events (one fallback track record, with the fallback playlists), \<open>n\<close> fallback track
  records in all, and is disconnected after every iteration. A printer worker whose
  request cannot reach the printer in each of \<open>length hs\<close> iterations emits exactly one
  fallback record in each; it has no connection state.
\<close>

theorem failing_connections_publish_fallback:
  assumes "running w" and "\<not> connected_flag w"
    and "connect_fails_for cl pf av n (w, b)"
    and "\<forall>h \<in> set hs. request_fails rav h"
  shows "map snd (mopidy_run cl pf av n (w, b)) = replicate n fallback_events
    \<and> count_list (concat (map snd (mopidy_run cl pf av n (w, b)))) (TrackUpdated MOCK_TRACK) = n
    \<and> (\<forall>w1 \<in> set (map fst (mopidy_run cl pf av n (w, b))). \<not> connected_flag w1)
    \<and> moonraker_run rav True hs = replicate (length hs) [MOCK_PRINTER]"
  using run_all_fail[OF assms(1,2,3)] moonraker_run_all_fail[OF assms(4)]
  by (simp add: count_fallback)

theorem failing_connections_publish_fallback_witness:
  "map snd (mopidy_run
     \<lparr> c_connect = \<lambda>h p. raise_exn (Exn ''ConnectionRefusedError''),
       c_status = raise_exn (Exn ''ConnectionError''),
       c_currentsong = raise_exn (Exn ''ConnectionError''),
       c_listplaylists = raise_exn (Exn ''ConnectionError''),
       c_command = \<lambda>c. raise_exn (Exn ''ConnectionError'') \<rparr>
     Map.empty True (Suc (Suc (Suc 0))) (\<lparr> running = True, client = None, connected_flag = False \<rparr>, ()))
   = [fallback_events, fallback_events, fallback_events]
   \<and> map (connected_flag \<circ> fst) (mopidy_run
     \<lparr> c_connect = \<lambda>h p. raise_exn (Exn ''ConnectionRefusedError''),
       c_status = raise_exn (Exn ''ConnectionError''),
       c_currentsong = raise_exn (Exn ''ConnectionError''),
       c_listplaylists = raise_exn (Exn ''ConnectionError''),
       c_command = \<lambda>c. raise_exn (Exn ''ConnectionError'') \<rparr>
     Map.empty True (Suc (Suc (Suc 0))) (\<lparr> running = True, client = None, connected_flag = False \<rparr>, ()))
   = [False, False, False]
   \<and> moonraker_run True True [NetworkError, NetworkError, NetworkError]
   = [[MOCK_PRINTER], [MOCK_PRINTER], [MOCK_PRINTER]]"
proof -
  let ?cl = "\<lparr> c_connect = \<lambda>h p. raise_exn (Exn ''ConnectionRefusedError''),
       c_status = raise_exn (Exn ''ConnectionError''),
       c_currentsong = raise_exn (Exn ''ConnectionError''),
       c_listplaylists = raise_exn (Exn ''ConnectionError''),
       c_command = \<lambda>c. raise_exn (Exn ''ConnectionError'') \<rparr>"
  let ?w = "\<lparr> running = True, client = None, connected_flag = False \<rparr>"
  let ?run = "mopidy_run ?cl Map.empty True (Suc (Suc (Suc 0))) (?w, ())"
  have r: "running ?w" and d: "\<not> connected_flag ?w" by simp_all
  have f: "connect_fails_for ?cl Map.empty True (Suc (Suc (Suc 0))) (?w, ())"
    by (simp add: connect_fails_def mopidy_tick_def try_connect_def raise_exn_def Let_def)
  have h: "\<forall>h \<in> set [NetworkError, NetworkError, NetworkError]. request_fails True h"
    by (simp add: request_fails_def)
  have ev: "map (connected_flag \<circ> fst) ?run = [False, False, False]"
    by (simp add: mopidy_tick_def try_connect_def raise_exn_def Let_def)
  from failing_connections_publish_fallback[OF r d f h]
  have "map snd ?run = replicate (Suc (Suc (Suc 0))) fallback_events"
    and "moonraker_run True True [NetworkError, NetworkError, NetworkError]
           = replicate (length [NetworkError, NetworkError, NetworkError]) [MOCK_PRINTER]"
    by blast+
  then show ?thesis using ev by simp
qed

text \<open>
  C8, as the code has it. \<open>normalize_status\<close> on the \<^verbatim>\<open>result.status\<close> object: a sub-object
  (\<^verbatim>\<open>print_stats\<close>, \<^verbatim>\<open>extruder\<close>, \<^verbatim>\<open>heater_bed\<close>) that is absent is read as the empty
  mapping before the fields are defaulted; a state label that is present is passed
  through unchanged, whether it is a known one or not, and an absent state becomes
  \<^verbatim>\<open>"standby"\<close>; each absent numeric field becomes 0.0, whatever the state. The zero-value
  record \<open>MOCK_PRINTER\<close> is what a status with nothing in it gives, and what the poll emits
  when its \<^verbatim>\<open>try\<close> block raises.
\<close>

theorem printer_normalization:
  assumes "map_of kvs ''print_stats'' = None \<and> st = []
             \<or> map_of kvs ''print_stats'' = Some (JObj st)"
    and "map_of kvs ''extruder'' = None \<and> ex = []
             \<or> map_of kvs ''extruder'' = Some (JObj ex)"
    and "map_of kvs ''heater_bed'' = None \<and> bd = []
             \<or> map_of kvs ''heater_bed'' = Some (JObj bd)"
  shows "normalize_status (JObj []) = Inr MOCK_PRINTER
    \<and> (moonraker_body http = Inl e \<longrightarrow> moonraker_poll True http = [MOCK_PRINTER])
    \<and> (\<exists>r. normalize_status (JObj kvs) = Inr r
         \<and> printer_state r = get_default (map_of st) ''state'' (JStr ''standby'')
         \<and> progress r = get_default (map_of st) ''progress'' (JNum 0.0)
         \<and> hotend_temp r = get_default (map_of ex) ''temperature'' (JNum 0.0)
         \<and> hotend_target r = get_default (map_of ex) ''target'' (JNum 0.0)
         \<and> bed_temp r = get_default (map_of bd) ''temperature'' (JNum 0.0)
         \<and> bed_target r = get_default (map_of bd) ''target'' (JNum 0.0)
         \<and> (map_of st ''state'' = Some v \<longrightarrow> printer_state r = v)
         \<and> (map_of st ''state'' = None \<longrightarrow> printer_state r = JStr ''standby'')
         \<and> (map_of st ''progress'' = None \<longrightarrow> progress r = JNum 0.0)
         \<and> (map_of ex ''temperature'' = None \<longrightarrow> hotend_temp r = JNum 0.0)
         \<and> (map_of ex ''target'' = None \<longrightarrow> hotend_target r = JNum 0.0)
         \<and> (map_of bd ''temperature'' = None \<longrightarrow> bed_temp r = JNum 0.0)
         \<and> (map_of bd ''target'' = None \<longrightarrow> bed_target r = JNum 0.0)
         \<and> moonraker_poll True
              (Response 200 (Some (JObj [(''result'', JObj [(''status'', JObj kvs)])]))) = [r])"
proof -
  have e: "normalize_status (JObj []) = Inr MOCK_PRINTER"
    by (simp add: normalize_status_def bind_sum_def get_default_def MOCK_PRINTER_def)
  have f: "moonraker_poll True http = [MOCK_PRINTER]" if "moonraker_body http = Inl e"
    using that by (simp add: moonraker_poll_def)
  have p: "moonraker_poll True
       (Response 200 (Some (JObj [(''result'', JObj [(''status'', JObj kvs)])]))) = [r]"
    if "normalize_status (JObj kvs) = Inr r" for r
    using that by (simp add: moonraker_poll_def moonraker_body_def bind_sum_def)
  show ?thesis
    using e f p[OF normalize_val[OF assms]]
    by (simp add: normalize_val[OF assms] get_default_def)
qed

theorem printer_normalization_witness:
  "normalize_status (JObj [(''print_stats'', JObj [(''progress'', JNum 0.5)])])
   = Inr \<lparr> printer_state = JStr ''standby'', progress = JNum 0.5, hotend_temp = JNum 0,
          hotend_target = JNum 0, bed_temp = JNum 0, bed_target = JNum 0 \<rparr>
   \<and> normalize_status (JObj []) = Inr MOCK_PRINTER"
proof -
  let ?kvs = "[(''print_stats'', JObj [(''progress'', JNum 0.5)])]"
  have a: "map_of ?kvs ''print_stats'' = None \<and> [(''progress'', JNum 0.5)] = []
             \<or> map_of ?kvs ''print_stats'' = Some (JObj [(''progress'', JNum 0.5)])"
    by simp
  have b: "map_of ?kvs ''extruder'' = None \<and> ([]::(string \<times> json) list) = []
             \<or> map_of ?kvs ''extruder'' = Some (JObj [])"
    by simp
  have c: "map_of ?kvs ''heater_bed'' = None \<and> ([]::(string \<times> json) list) = []
             \<or> map_of ?kvs ''heater_bed'' = Some (JObj [])"
    by simp
  from printer_normalization[OF a b c] obtain r where
    r: "normalize_status (JObj ?kvs) = Inr r"
    and "printer_state r = get_default (map_of [(''progress'', JNum 0.5)]) ''state'' (JStr ''standby'')"
    and "progress r = get_default (map_of [(''progress'', JNum 0.5)]) ''progress'' (JNum 0.0)"
    and "hotend_temp r = get_default (map_of []) ''temperature'' (JNum 0.0)"
    and "hotend_target r = get_default (map_of []) ''target'' (JNum 0.0)"
    and "bed_temp r = get_default (map_of []) ''temperature'' (JNum 0.0)"
    and "bed_target r = get_default (map_of []) ''target'' (JNum 0.0)"
    and e: "normalize_status (JObj []) = Inr MOCK_PRINTER"
    by blast
  then have "r = \<lparr> printer_state = JStr ''standby'', progress = JNum 0.5, hotend_temp = JNum 0,
          hotend_target = JNum 0, bed_temp = JNum 0, bed_target = JNum 0 \<rparr>"
    by (cases r) (simp add: get_default_def)
  with r e show ?thesis by simp
qed

text \<open>
  C8 as stated fails twice. A state label the worker does not know, \<^verbatim>\<open>"foobar"\<close>, is not
  mapped to \<^verbatim>\<open>"standby"\<close>: it is published as it came. And a status without a state is
  not mapped to the zero-value record when another field is present.
\<close>

theorem unknown_state_passes_through_counterexample:
  "normalize_status (JObj [(''print_stats'', JObj [(''state'', JStr ''foobar'')])])
   = Inr \<lparr> printer_state = JStr ''foobar'', progress = JNum 0, hotend_temp = JNum 0,
          hotend_target = JNum 0, bed_temp = JNum 0, bed_target = JNum 0 \<rparr>
   \<and> moonraker_poll True (Response 200 (Some (JObj [(''result'', JObj [(''status'',
        JObj [(''print_stats'', JObj [(''state'', JStr ''foobar'')])])])])))
     = [\<lparr> printer_state = JStr ''foobar'', progress = JNum 0, hotend_temp = JNum 0,
          hotend_target = JNum 0, bed_temp = JNum 0, bed_target = JNum 0 \<rparr>]
   \<and> moonraker_poll True (Response 200 (Some (JObj [(''result'', JObj [(''status'',
        JObj [(''print_stats'', JObj [(''state'', JStr ''foobar'')])])])])))
     \<noteq> [MOCK_PRINTER]
   \<and> normalize_status (JObj [(''print_stats'', JObj [(''progress'', JNum 0.5)])])
     \<noteq> Inr MOCK_PRINTER"
  by (simp add: normalize_status_def moonraker_poll_def moonraker_body_def bind_sum_def
      get_default_def MOCK_PRINTER_def)

end
